theory Spec2Isabelle
  imports
    Complex_Main
    "HOL-Library.Sublist"
    "HOL-Library.AList"
    "HOL-Library.Char_ord"
    "HOL-Library.List_Lexorder"
begin

section \<open>The CORS proxy worker (src/index.js)\<close>

text \<open>
  The worker is one JavaScript module: the pure helpers \<^verbatim>\<open>wildcardToRegex\<close>,
  \<^verbatim>\<open>isMatched\<close> and \<^verbatim>\<open>isAccessAllowed\<close>, and the request handler \<^verbatim>\<open>fetch\<close>.
  JavaScript strings are modelled as \<^typ>\<open>string\<close>, \<^verbatim>\<open>null\<close> as \<^term>\<open>None\<close>, a thrown
  exception as \<^term>\<open>Inl\<close> of the exception's kind.

  What the handler calls but the module does not define (the regular expression engine,
  the JSON codec, the upstream \<^verbatim>\<open>fetch\<close>) is a parameter of the model; the built-ins
  with a short standard definition (\<^verbatim>\<open>decodeURIComponent\<close>, the \<^verbatim>\<open>Headers\<close> class,
  the \<^verbatim>\<open>Response\<close> constructor) are written out.
\<close>

datatype error = URIError | SyntaxError | TypeError | RangeError | NetworkError

subsection \<open>Pattern matcher\<close>

text \<open>The backslash, which a string literal cannot hold.\<close>

definition backslash :: char where
  "backslash = CHR 0x5C"

text \<open>
  \<^verbatim>\<open>pattern.replace(/[.+^${}()|[\]\\]/g, '\\$&')\<close>: the characters of the class are
  \<^verbatim>\<open>. + ^ $ { } ( ) | [ ] \<close> and the backslash; each gets a backslash in front.
\<close>

definition escaped_chars :: "char list" where
  "escaped_chars = ''.+^${}()|[]'' @ [backslash]"

definition escape_char :: "char \<Rightarrow> string" where
  "escape_char c = (if c \<in> set escaped_chars then [backslash, c] else [c])"

text \<open>\<^verbatim>\<open>.replace(/\*/g, '.*')\<close>\<close>

definition star_char :: "char \<Rightarrow> string" where
  "star_char c = (if c = CHR ''*'' then ''.*'' else [c])"

definition wildcardToRegex :: "string \<Rightarrow> string" where
  "wildcardToRegex pattern = concat (map star_char (concat (map escape_char pattern)))"

text \<open>
  The regular expression engine is a parameter \<open>rx\<close>: \<open>rx src s\<close> is the result of
  \<^verbatim>\<open>new RegExp(src, 'i').test(s)\<close>, which throws a \<^verbatim>\<open>SyntaxError\<close> when \<open>src\<close> is
  not a regular expression.
\<close>

type_synonym regexp_test = "string \<Rightarrow> string \<Rightarrow> error + bool"

text \<open>The callback of \<^verbatim>\<open>listing.some\<close> in \<^verbatim>\<open>isMatched\<close>.\<close>

definition pattern_test :: "regexp_test \<Rightarrow> string \<Rightarrow> string \<Rightarrow> error + bool" where
  "pattern_test rx uri pattern =
     (if CHR ''*'' \<in> set pattern
      then rx (''^'' @ wildcardToRegex pattern @ ''$'') uri
      else rx pattern uri)"

text \<open>
  \<^verbatim>\<open>Array.prototype.some\<close>: the callback runs on the elements in order until one
  returns true; an exception of the callback ends the loop.
\<close>

fun some_pattern :: "regexp_test \<Rightarrow> string \<Rightarrow> string list \<Rightarrow> error + bool" where
  "some_pattern rx uri [] = Inr False"
| "some_pattern rx uri (pattern # listing) =
     (case pattern_test rx uri pattern of
        Inl e \<Rightarrow> Inl e
      | Inr True \<Rightarrow> Inr True
      | Inr False \<Rightarrow> some_pattern rx uri listing)"

text \<open>
  \<^verbatim>\<open>isMatched(uri, listing)\<close>; \<open>uri\<close> is \<^verbatim>\<open>null\<close> or a string, and \<^verbatim>\<open>!uri\<close> holds of
  \<^verbatim>\<open>null\<close> and of the empty string.
\<close>

definition isMatched :: "regexp_test \<Rightarrow> string option \<Rightarrow> string list \<Rightarrow> error + bool" where
  "isMatched rx uri listing =
     (case uri of
        None \<Rightarrow> Inr (listing = [])
      | Some u \<Rightarrow>
          if u = [] \<or> listing = [] then Inr (listing = [])
          else some_pattern rx u listing)"

subsection \<open>Access policy\<close>

record accessLists =
  whitelistUrls :: "string list"
  blacklistUrls :: "string list"
  whitelistOrigins :: "string list"
  blacklistOrigins :: "string list"

text \<open>
  \<^verbatim>\<open>if (listing.length > 0 && isMatched(uri, listing))\<close> and its negated form: the
  condition of each of the four \<^verbatim>\<open>if\<close> statements; \<^verbatim>\<open>&&\<close> does not evaluate
  \<^verbatim>\<open>isMatched\<close> on an empty listing.
\<close>

definition listed :: "regexp_test \<Rightarrow> string option \<Rightarrow> string list \<Rightarrow> error + bool" where
  "listed rx uri listing = (if listing \<noteq> [] then isMatched rx uri listing else Inr False)"

definition not_listed :: "regexp_test \<Rightarrow> string option \<Rightarrow> string list \<Rightarrow> error + bool" where
  "not_listed rx uri listing =
     (if listing \<noteq> [] then map_sum id Not (isMatched rx uri listing) else Inr False)"

definition isAccessAllowed ::
  "regexp_test \<Rightarrow> string \<Rightarrow> string option \<Rightarrow> accessLists \<Rightarrow> error + bool"
where
  "isAccessAllowed rx targetUrl originHeader acl =
     (case listed rx originHeader (blacklistOrigins acl) of
        Inl e \<Rightarrow> Inl e
      | Inr True \<Rightarrow> Inr False
      | Inr False \<Rightarrow>
     (case listed rx (Some targetUrl) (blacklistUrls acl) of
        Inl e \<Rightarrow> Inl e
      | Inr True \<Rightarrow> Inr False
      | Inr False \<Rightarrow>
     (case not_listed rx originHeader (whitelistOrigins acl) of
        Inl e \<Rightarrow> Inl e
      | Inr True \<Rightarrow> Inr False
      | Inr False \<Rightarrow>
     (case not_listed rx (Some targetUrl) (whitelistUrls acl) of
        Inl e \<Rightarrow> Inl e
      | Inr True \<Rightarrow> Inr False
      | Inr False \<Rightarrow> Inr True))))"

subsection \<open>Strings\<close>

text \<open>\<^verbatim>\<open>Array.prototype.join\<close>, also the way \<^verbatim>\<open>Headers\<close> combines the values of one name.\<close>

fun join :: "string \<Rightarrow> string list \<Rightarrow> string" where
  "join sep [] = []"
| "join sep [x] = x"
| "join sep (x # y # ys) = x @ sep @ join sep (y # ys)"

text \<open>Byte-lowercasing, as header names are compared and listed.\<close>

definition lower_char :: "char \<Rightarrow> char" where
  "lower_char c =
     (case map_of (zip ''ABCDEFGHIJKLMNOPQRSTUVWXYZ'' ''abcdefghijklmnopqrstuvwxyz'') c of
        Some d \<Rightarrow> d
      | None \<Rightarrow> c)"

definition lower :: "string \<Rightarrow> string" where
  "lower s = map lower_char s"

text \<open>
  The conversion of a value that is \<^verbatim>\<open>null\<close> or a string to a string, as string
  concatenation and the \<^verbatim>\<open>ByteString\<close> arguments of \<^verbatim>\<open>Headers.set\<close> apply it:
  \<^verbatim>\<open>null\<close> becomes the four characters \<^verbatim>\<open>null\<close>.
\<close>

definition String_of :: "string option \<Rightarrow> string" where
  "String_of v = (case v of None \<Rightarrow> ''null'' | Some s \<Rightarrow> s)"

text \<open>The decimal numeral of an array index.\<close>

fun string_of_nat :: "nat \<Rightarrow> string" where
  "string_of_nat n =
     (if n < 10 then [''0123456789'' ! n]
      else string_of_nat (n div 10) @ [''0123456789'' ! (n mod 10)])"

definition newline :: string where
  "newline = [CHR 0x0A]"

subsection \<open>decodeURIComponent\<close>

text \<open>
  \<^verbatim>\<open>decodeURIComponent\<close> as ECMA-262 defines it (Decode with an empty set of preserved
  characters), on strings held as UTF-8 bytes: a \<^verbatim>\<open>%\<close> must be followed by two
  hexadecimal digits; an octet below 128 is the character itself; an octet with n leading
  one bits starts a sequence of n escaped octets, which must be a well-formed UTF-8
  sequence. Everything else throws \<^verbatim>\<open>URIError\<close>.
\<close>

definition hex_digit :: "char \<Rightarrow> nat option" where
  "hex_digit c =
     map_of (zip ''0123456789abcdefABCDEF''
               [0, 1, 2, 3, 4, 5, 6, 7, 8, 9, 10, 11, 12, 13, 14, 15, 10, 11, 12, 13, 14, 15]) c"

text \<open>The value of a decimal numeral, to tell the indices apart.\<close>

definition digit_value :: "char \<Rightarrow> nat" where
  "digit_value c = (case hex_digit c of None \<Rightarrow> 0 | Some d \<Rightarrow> d)"

definition decimal_value :: "string \<Rightarrow> nat" where
  "decimal_value s = foldl (\<lambda>n c. 10 * n + digit_value c) 0 s"

definition hex_octet :: "char \<Rightarrow> char \<Rightarrow> nat option" where
  "hex_octet a b =
     (case (hex_digit a, hex_digit b) of
        (Some x, Some y) \<Rightarrow> Some (16 * x + y)
      | _ \<Rightarrow> None)"

definition leading_ones :: "nat \<Rightarrow> nat" where
  "leading_ones b =
     (if b < 128 then 0 else if b < 192 then 1 else if b < 224 then 2
      else if b < 240 then 3 else if b < 248 then 4 else 5)"

text \<open>The \<open>j\<close> continuation escapes after the first octet, and the rest of the string.\<close>

fun continuation_octets :: "nat \<Rightarrow> string \<Rightarrow> (nat list \<times> string) option" where
  "continuation_octets 0 s = Some ([], s)"
| "continuation_octets (Suc j) (p # a # b # s) =
     (if p = CHR ''%'' then
        (case hex_octet a b of
           None \<Rightarrow> None
         | Some octet \<Rightarrow>
             (case continuation_octets j s of
                None \<Rightarrow> None
              | Some (octets, rest) \<Rightarrow> Some (octet # octets, rest)))
      else None)"
| "continuation_octets (Suc j) s = None"

text \<open>The well-formed UTF-8 byte sequences of more than one byte (Unicode, table 3-7).\<close>

definition tail_octet :: "nat \<Rightarrow> bool" where
  "tail_octet b = (128 \<le> b \<and> b \<le> 191)"

fun utf8_sequence :: "nat list \<Rightarrow> bool" where
  "utf8_sequence [a, b] = (194 \<le> a \<and> a \<le> 223 \<and> tail_octet b)"
| "utf8_sequence [a, b, c] =
     ((a = 224 \<and> 160 \<le> b \<and> b \<le> 191 \<and> tail_octet c) \<or>
      (225 \<le> a \<and> a \<le> 236 \<and> tail_octet b \<and> tail_octet c) \<or>
      (a = 237 \<and> 128 \<le> b \<and> b \<le> 159 \<and> tail_octet c) \<or>
      (238 \<le> a \<and> a \<le> 239 \<and> tail_octet b \<and> tail_octet c))"
| "utf8_sequence [a, b, c, d] =
     ((a = 240 \<and> 144 \<le> b \<and> b \<le> 191 \<and> tail_octet c \<and> tail_octet d) \<or>
      (241 \<le> a \<and> a \<le> 243 \<and> tail_octet b \<and> tail_octet c \<and> tail_octet d) \<or>
      (a = 244 \<and> 128 \<le> b \<and> b \<le> 143 \<and> tail_octet c \<and> tail_octet d))"
| "utf8_sequence octets = False"

text \<open>
  What follows a \<^verbatim>\<open>%\<close>: the octets of one escaped character and the rest of the
  string, or \<^term>\<open>None\<close> where Decode throws.
\<close>

definition escape_sequence :: "string \<Rightarrow> (nat list \<times> string) option" where
  "escape_sequence s =
     (case s of
        a # b # s' \<Rightarrow>
          (case hex_octet a b of
             None \<Rightarrow> None
           | Some octet \<Rightarrow>
               let n = leading_ones octet in
               if n = 0 then Some ([octet], s')
               else if n = 1 \<or> n > 4 then None
               else
                 (case continuation_octets (n - 1) s' of
                    None \<Rightarrow> None
                  | Some (octets, rest) \<Rightarrow>
                      if utf8_sequence (octet # octets) then Some (octet # octets, rest)
                      else None))
      | _ \<Rightarrow> None)"

lemma continuation_octets_length:
  "continuation_octets j s = Some (octets, rest) \<Longrightarrow> length rest \<le> length s"
proof (induction j s arbitrary: octets rest rule: continuation_octets.induct)
  case (1 s)
  then show ?case by simp
next
  case (2 j p a b s)
  then show ?case
    by (fastforce split: if_splits option.splits)
qed simp_all

lemma escape_sequence_length:
  "escape_sequence s = Some (octets, rest) \<Longrightarrow> length rest < length s"
  by (auto simp: escape_sequence_def Let_def
      split: list.splits option.splits if_splits dest!: continuation_octets_length)

function decodeURIComponent :: "string \<Rightarrow> error + string" where
  "decodeURIComponent [] = Inr []"
| "decodeURIComponent (c # s) =
     (if c \<noteq> CHR ''%'' then map_sum id ((#) c) (decodeURIComponent s)
      else
        (case escape_sequence s of
           None \<Rightarrow> Inl URIError
         | Some (octets, rest) \<Rightarrow>
             map_sum id ((@) (map char_of octets)) (decodeURIComponent rest)))"
  by pat_completeness auto
termination
  by (relation "measure length") (auto dest: escape_sequence_length)

subsection \<open>The Headers class\<close>

text \<open>
  A \<^verbatim>\<open>Headers\<close> object is its header list: names as they were given, compared without
  regard to case (Fetch standard). \<^verbatim>\<open>get\<close> joins the values of a name with a comma and a
  space, \<^verbatim>\<open>set\<close> overwrites the first header of the name and removes the others,
  \<^verbatim>\<open>entries\<close> lists the lowercased names in sorted order, each once, with its combined
  value (also \<^verbatim>\<open>set-cookie\<close>: a header has one value here). The validation and the
  trimming of values are not modelled.
\<close>

type_synonym headers = "(string \<times> string) list"

definition headers_values :: "headers \<Rightarrow> string \<Rightarrow> string list" where
  "headers_values h name = map snd (filter (\<lambda>nv. lower (fst nv) = lower name) h)"

definition headers_get :: "headers \<Rightarrow> string \<Rightarrow> string option" where
  "headers_get h name =
     (case headers_values h name of
        [] \<Rightarrow> None
      | vs \<Rightarrow> Some (join '', '' vs))"

definition headers_delete :: "headers \<Rightarrow> string \<Rightarrow> headers" where
  "headers_delete h name = filter (\<lambda>nv. lower (fst nv) \<noteq> lower name) h"

fun headers_set :: "headers \<Rightarrow> string \<Rightarrow> string \<Rightarrow> headers" where
  "headers_set [] name v = [(name, v)]"
| "headers_set (nv # h) name v =
     (if lower (fst nv) = lower name then (fst nv, v) # headers_delete h name
      else nv # headers_set h name v)"

definition headers_names :: "headers \<Rightarrow> string list" where
  "headers_names h = sort (remdups (map (\<lambda>nv. lower (fst nv)) h))"

definition headers_entries :: "headers \<Rightarrow> (string \<times> string) list" where
  "headers_entries h = map (\<lambda>n. (n, join '', '' (headers_values h n))) (headers_names h)"

text \<open>
  \<^verbatim>\<open>new Headers(init)\<close> for \<open>init\<close> a \<^verbatim>\<open>Headers\<close> object, also as the \<^verbatim>\<open>headers\<close>
  member of a \<^verbatim>\<open>Response\<close> initialiser: the entries of \<open>init\<close>, appended one by one.
\<close>

definition Headers_new :: "headers \<Rightarrow> headers" where
  "Headers_new init = headers_entries init"

subsection \<open>JSON values and plain objects\<close>

text \<open>
  The values \<^verbatim>\<open>JSON.parse\<close> returns. A plain object is the list of its properties,
  read as a mapping by \<^const>\<open>map_of\<close>; \<^verbatim>\<open>obj[key] = value\<close> is
  \<^const>\<open>AList.update\<close>, which overwrites the value of a key in place and appends a new
  key. Every key is an ordinary property name, and the order of the list is the order of
  insertion (JavaScript lists index-like names first; no property below depends on the
  order).
\<close>

datatype jsval =
    JNull
  | JBool bool
  | JNumber real
  | JString string
  | JArray "jsval list"
  | JObject "(string \<times> jsval) list"

text \<open>
  \<^verbatim>\<open>Object.entries\<close>: the properties of an object, the indexed elements of an array,
  the indexed characters of a string, nothing for a number or a boolean. On \<^verbatim>\<open>null\<close>
  it throws; the handler tests for \<^verbatim>\<open>null\<close> before it calls it.
\<close>

fun Object_entries :: "jsval \<Rightarrow> (string \<times> jsval) list" where
  "Object_entries (JObject props) = props"
| "Object_entries (JArray vs) = zip (map string_of_nat [0..<length vs]) vs"
| "Object_entries (JString s) =
     zip (map string_of_nat [0..<length s]) (map (\<lambda>c. JString [c]) s)"
| "Object_entries v = []"

subsection \<open>Requests, responses and the runtime\<close>

record cf_properties =
  cf_country :: "string option"
  cf_colo :: "string option"

text \<open>
  The incoming request: \<open>req_search\<close> and \<open>req_origin\<close> are the \<^verbatim>\<open>search\<close> and
  \<^verbatim>\<open>origin\<close> of \<^verbatim>\<open>new URL(request.url)\<close>; \<open>req_cf\<close> is \<^term>\<open>None\<close> when
  \<^verbatim>\<open>request.cf\<close> is undefined.
\<close>

record request =
  req_method :: string
  req_search :: string
  req_origin :: string
  req_headers :: headers
  req_body :: "string option"
  req_cf :: "cf_properties option"

text \<open>\<^verbatim>\<open>new Request(request, {redirect: "follow", headers: filteredHeaders})\<close>\<close>

record outbound_request =
  out_method :: string
  out_redirect :: string
  out_headers :: "(string \<times> jsval) list"
  out_body :: "string option"

record upstream_response =
  up_status :: nat
  up_statusText :: string
  up_headers :: headers
  up_body :: string

datatype body = NoBody | Text string | Bytes string

record response =
  status :: nat
  statusText :: string
  resp_headers :: headers
  resp_body :: body

text \<open>
  What the module takes from its runtime: the regular expression engine, the JSON codec,
  and \<open>fetch_upstream targetUrl newRequest\<close> for
  \<^verbatim>\<open>await fetch(targetUrl, newRequest)\<close> with the body read by
  \<^verbatim>\<open>await response.arrayBuffer()\<close>, which fail with an exception on a bad request
  or a transport error.
\<close>

record runtime =
  RegExp_test :: regexp_test
  JSON_parse :: "string \<Rightarrow> error + jsval"
  JSON_stringify :: "jsval \<Rightarrow> string"
  fetch_upstream :: "string \<Rightarrow> outbound_request \<Rightarrow> error + upstream_response"

text \<open>
  \<^verbatim>\<open>new Response(body, {status, statusText, headers})\<close> (Fetch standard): the status is
  in the range 200 to 599, a status of 204, 205 or 304 takes no body, and a text body
  brings its content type when the headers have none.
\<close>

definition Response_new :: "body \<Rightarrow> nat \<Rightarrow> string \<Rightarrow> headers \<Rightarrow> error + response" where
  "Response_new b st text h =
     (if st < 200 \<or> 599 < st then Inl RangeError
      else if b \<noteq> NoBody \<and> st \<in> {204, 205, 304} then Inl TypeError
      else Inr \<lparr>status = st, statusText = text,
             resp_headers =
               (case b of
                  Text t \<Rightarrow>
                    if headers_get h ''Content-Type'' = None
                    then h @ [(''Content-Type'', ''text/plain;charset=UTF-8'')]
                    else h
                | _ \<Rightarrow> h),
             resp_body = b\<rparr>)"

subsection \<open>The handler\<close>

text \<open>\<^verbatim>\<open>setupCORSHeaders(headers)\<close>, a closure over the request.\<close>

definition setupCORSHeaders :: "request \<Rightarrow> headers \<Rightarrow> headers" where
  "setupCORSHeaders req h =
     (let h1 = headers_set h ''Access-Control-Allow-Origin''
                 (String_of (headers_get (req_headers req) ''Origin''))
      in
      if req_method req = ''OPTIONS'' then
        let h2 = headers_set h1 ''Access-Control-Allow-Methods''
                   (String_of (headers_get (req_headers req) ''access-control-request-method''));
            requestedHeaders = headers_get (req_headers req) ''access-control-request-headers'';
            h3 = (case requestedHeaders of
                    None \<Rightarrow> h2
                  | Some v \<Rightarrow>
                      if v \<noteq> [] then headers_set h2 ''Access-Control-Allow-Headers'' v else h2)
        in headers_delete h3 ''X-Content-Type-Options''
      else h1)"

text \<open>
  \<^verbatim>\<open>customHeaders\<close> after the \<^verbatim>\<open>try\<close>: \<^verbatim>\<open>null\<close> without the header, the parsed value
  when \<^verbatim>\<open>JSON.parse\<close> returns, and the header's string, which the empty \<^verbatim>\<open>catch\<close>
  leaves in the variable, when it throws.
\<close>

definition customHeaders_of :: "runtime \<Rightarrow> request \<Rightarrow> jsval" where
  "customHeaders_of rt req =
     (case headers_get (req_headers req) ''x-cors-headers'' of
        None \<Rightarrow> JNull
      | Some text \<Rightarrow>
          (case JSON_parse rt text of
             Inl e \<Rightarrow> JString text
           | Inr v \<Rightarrow> v))"

text \<open>
  The five tests of a header name, \<^verbatim>\<open>key.match("^origin")\<close>, \<^verbatim>\<open>key.match("eferer")\<close>,
  \<^verbatim>\<open>key.match("^cf-")\<close>, \<^verbatim>\<open>key.match("^x-forw")\<close> and \<^verbatim>\<open>key.match("^x-cors-headers")\<close>:
  a header is copied when all five are \<^verbatim>\<open>null\<close>.
\<close>

definition excluded_key :: "string \<Rightarrow> bool" where
  "excluded_key key \<longleftrightarrow>
     prefix ''origin'' key \<or> sublist ''eferer'' key \<or> prefix ''cf-'' key \<or>
     prefix ''x-forw'' key \<or> prefix ''x-cors-headers'' key"

definition copy_header :: "string \<times> string \<Rightarrow> (string \<times> jsval) list \<Rightarrow> (string \<times> jsval) list" where
  "copy_header entry obj =
     (if \<not> excluded_key (fst entry) then AList.update (fst entry) (JString (snd entry)) obj
      else obj)"

definition assign_entry :: "string \<times> jsval \<Rightarrow> (string \<times> jsval) list \<Rightarrow> (string \<times> jsval) list" where
  "assign_entry entry obj = AList.update (fst entry) (snd entry) obj"

text \<open>\<^verbatim>\<open>filteredHeaders\<close> after the two loops.\<close>

definition filteredHeaders_of :: "headers \<Rightarrow> jsval \<Rightarrow> (string \<times> jsval) list" where
  "filteredHeaders_of h customHeaders =
     (let filteredHeaders = fold copy_header (headers_entries h) []
      in
      if customHeaders \<noteq> JNull
      then fold assign_entry (Object_entries customHeaders) filteredHeaders
      else filteredHeaders)"

definition newRequest_of :: "runtime \<Rightarrow> request \<Rightarrow> outbound_request" where
  "newRequest_of rt req =
     \<lparr>out_method = req_method req, out_redirect = ''follow'',
      out_headers = filteredHeaders_of (req_headers req) (customHeaders_of rt req),
      out_body = req_body req\<rparr>"

text \<open>The response of the proxied path, from the upstream response.\<close>

definition exposedHeaders_of :: "upstream_response \<Rightarrow> string list" where
  "exposedHeaders_of up = map fst (headers_entries (up_headers up)) @ [''cors-received-headers'']"

definition allResponseHeaders_of :: "upstream_response \<Rightarrow> (string \<times> jsval) list" where
  "allResponseHeaders_of up =
     fold (\<lambda>entry obj. AList.update (fst entry) (JString (snd entry)) obj)
       (headers_entries (up_headers up)) []"

definition proxied_response :: "runtime \<Rightarrow> request \<Rightarrow> upstream_response \<Rightarrow> error + response" where
  "proxied_response rt req up =
     (let isPreflightRequest = (req_method req = ''OPTIONS'');
          responseHeaders = setupCORSHeaders req (Headers_new (up_headers up));
          responseHeaders = headers_set responseHeaders ''Access-Control-Expose-Headers''
                              (join '','' (exposedHeaders_of up));
          responseHeaders = headers_set responseHeaders ''cors-received-headers''
                              (JSON_stringify rt (JObject (allResponseHeaders_of up)));
          responseBody = (if isPreflightRequest then NoBody else Bytes (up_body up))
      in Response_new responseBody
           (if isPreflightRequest then 200 else up_status up)
           (if isPreflightRequest then ''OK'' else up_statusText up)
           (Headers_new responseHeaders))"

text \<open>The informational page of the path without a target.\<close>

definition truthy :: "string option \<Rightarrow> bool" where
  "truthy v = (case v of None \<Rightarrow> False | Some s \<Rightarrow> s \<noteq> [])"

definition info_head :: "request \<Rightarrow> string" where
  "info_head req =
     ''CLOUDFLARE-CORS-ANYWHERE'' @ newline @ newline @
     ''Source:'' @ newline @ ''https://github.com/Zibri/cloudflare-cors-anywhere'' @
       newline @ newline @
     ''Usage:'' @ newline @
     req_origin req @ ''/?uri'' @ newline @ newline @
     ''Limits: 100,000 requests/day'' @ newline @
     ''          1,000 requests/10 minutes'' @ newline @ newline"

definition info_tail :: "runtime \<Rightarrow> request \<Rightarrow> jsval \<Rightarrow> string" where
  "info_tail rt req customHeaders =
     (let connectingIp = headers_get (req_headers req) ''CF-Connecting-IP'';
          country = (case req_cf req of None \<Rightarrow> None | Some cf \<Rightarrow> cf_country cf);
          colo = (case req_cf req of None \<Rightarrow> None | Some cf \<Rightarrow> cf_colo cf)
      in
      ''IP: '' @ String_of connectingIp @ newline @
      (if truthy country then ''Country: '' @ String_of country @ newline else []) @
      (if truthy colo then ''Datacenter: '' @ String_of colo @ newline else []) @
      newline @
      (if customHeaders \<noteq> JNull
       then newline @ ''x-cors-headers: '' @ JSON_stringify rt customHeaders
       else []))"

text \<open>The text of the page: the part before the origin line, the line, the part after it.\<close>

definition info_text :: "runtime \<Rightarrow> request \<Rightarrow> jsval \<Rightarrow> string" where
  "info_text rt req customHeaders =
     info_head req @
     (case headers_get (req_headers req) ''Origin'' of
        None \<Rightarrow> []
      | Some originHeader \<Rightarrow> ''Origin: '' @ originHeader @ newline) @
     info_tail rt req customHeaders"

definition info_response :: "runtime \<Rightarrow> request \<Rightarrow> jsval \<Rightarrow> error + response" where
  "info_response rt req customHeaders =
     Response_new (Text (info_text rt req customHeaders)) 200 []
       (Headers_new (setupCORSHeaders req []))"

definition forbidden_response :: "error + response" where
  "forbidden_response =
     Response_new
       (Text (''Create your own CORS proxy</br>'' @ newline @
              ''<a href='' @ [CHR 0x27] @ ''https://github.com/Zibri/cloudflare-cors-anywhere'' @
              [CHR 0x27] @ ''>https://github.com/Zibri/cloudflare-cors-anywhere</a></br>'' @
              newline))
       403 ''Forbidden'' [(''Content-Type'', ''text/html'')]"

text \<open>
  \<^verbatim>\<open>decodeURIComponent(decodeURIComponent(originUrl.search.substr(1)))\<close>, the inner
  call first.
\<close>

definition targetUrl_of :: "request \<Rightarrow> error + string" where
  "targetUrl_of req =
     (case decodeURIComponent (drop 1 (req_search req)) of
        Inl e \<Rightarrow> Inl e
      | Inr once \<Rightarrow> decodeURIComponent once)"

text \<open>
  \<^verbatim>\<open>fetch(request, env, ctx)\<close>; \<open>acl\<close> is \<^verbatim>\<open>getAccessLists(env)\<close>. Nothing in the
  handler catches an exception but the \<^verbatim>\<open>try\<close> around \<^verbatim>\<open>JSON.parse\<close>.
\<close>

definition fetch_handler :: "runtime \<Rightarrow> accessLists \<Rightarrow> request \<Rightarrow> error + response" where
  "fetch_handler rt acl req =
     (case targetUrl_of req of
        Inl e \<Rightarrow> Inl e
      | Inr targetUrl \<Rightarrow>
     (case isAccessAllowed (RegExp_test rt) targetUrl
             (headers_get (req_headers req) ''Origin'') acl of
        Inl e \<Rightarrow> Inl e
      | Inr True \<Rightarrow>
          if prefix ''?'' (req_search req) then
            (case fetch_upstream rt targetUrl (newRequest_of rt req) of
               Inl e \<Rightarrow> Inl e
             | Inr up \<Rightarrow> proxied_response rt req up)
          else info_response rt req (customHeaders_of rt req)
      | Inr False \<Rightarrow> forbidden_response))"

subsection \<open>A sample runtime\<close>

text \<open>
  Concrete values for the parameters, to run the handler on examples. The engine is the
  one of patterns made of letters, digits, \<^verbatim>\<open>:\<close> and \<^verbatim>\<open>/\<close> only, which match where
  they occur in the subject, whatever the case. The JSON codec is the one of objects
  whose keys and values are strings without quotes, backslashes or control characters;
  the parser knows the two texts the examples use and rejects \<^verbatim>\<open>{oops\<close>, as
  \<^verbatim>\<open>JSON.parse\<close> does. The upstream answers every request with the same response.
\<close>

definition literal_test :: regexp_test where
  "literal_test src s = Inr (sublist (lower src) (lower s))"

definition dquote :: string where
  "dquote = [CHR 0x22]"

definition member_text :: "string \<times> jsval \<Rightarrow> string" where
  "member_text kv =
     dquote @ fst kv @ dquote @ '':'' @
     (case snd kv of JString s \<Rightarrow> dquote @ s @ dquote | _ \<Rightarrow> ''null'')"

definition sample_stringify :: "jsval \<Rightarrow> string" where
  "sample_stringify v =
     (case v of
        JObject props \<Rightarrow> ''{'' @ join '','' (map member_text props) @ ''}''
      | JString s \<Rightarrow> dquote @ s @ dquote
      | _ \<Rightarrow> ''null'')"

definition sample_custom :: "(string \<times> jsval) list" where
  "sample_custom = [(''x-forwarded-for'', JString ''203.0.113.7''), (''accept'', JString ''text/plain'')]"

definition sample_upstream :: upstream_response where
  "sample_upstream =
     \<lparr>up_status = 404, up_statusText = ''Not Found'',
      up_headers = [(''Set-Cookie'', ''id=1''), (''Content-Type'', ''text/html''),
                    (''X-Content-Type-Options'', ''nosniff''),
                    (''Access-Control-Allow-Headers'', ''authorization'')],
      up_body = ''gone''\<rparr>"

definition sample_received :: "(string \<times> jsval) list" where
  "sample_received =
     [(''access-control-allow-headers'', JString ''authorization''),
      (''content-type'', JString ''text/html''), (''set-cookie'', JString ''id=1''),
      (''x-content-type-options'', JString ''nosniff'')]"

definition sample_parse :: "string \<Rightarrow> error + jsval" where
  "sample_parse text =
     (if text = sample_stringify (JObject sample_custom) then Inr (JObject sample_custom)
      else if text = sample_stringify (JObject sample_received) then Inr (JObject sample_received)
      else Inl SyntaxError)"

definition sample_runtime :: runtime where
  "sample_runtime =
     \<lparr>RegExp_test = literal_test, JSON_parse = sample_parse,
      JSON_stringify = sample_stringify,
      fetch_upstream = (\<lambda>targetUrl newRequest. Inr sample_upstream)\<rparr>"

definition open_lists :: accessLists where
  "open_lists = \<lparr>whitelistUrls = [], blacklistUrls = [], whitelistOrigins = [], blacklistOrigins = []\<rparr>"


text \<open>A request whose \<^verbatim>\<open>x-cors-headers\<close> value is not JSON.\<close>

definition malformed_request :: request where
  "malformed_request =
     \<lparr>req_method = ''GET'', req_search = ''?https://example.com/'',
      req_origin = ''https://proxy.example'',
      req_headers = [(''Accept'', ''text/html''), (''x-cors-headers'', ''{oops'')],
      req_body = None, req_cf = None\<rparr>"


text \<open>Two preflight requests, the second with an empty \<^verbatim>\<open>Access-Control-Request-Headers\<close>,
  and the headers of the response to the second.\<close>

definition preflight_request :: request where
  "preflight_request =
     \<lparr>req_method = ''OPTIONS'', req_search = ''?https://example.com/'',
      req_origin = ''https://proxy.example'',
      req_headers =
        [(''Origin'', ''https://app.example''), (''Access-Control-Request-Method'', ''POST''),
         (''Access-Control-Request-Headers'', ''content-type,x-token'')],
      req_body = None, req_cf = None\<rparr>"

definition bare_preflight_request :: request where
  "bare_preflight_request =
     \<lparr>req_method = ''OPTIONS'', req_search = ''?https://example.com/'',
      req_origin = ''https://proxy.example'',
      req_headers =
        [(''Origin'', ''https://app.example''), (''Access-Control-Request-Method'', ''POST''),
         (''Access-Control-Request-Headers'', [])],
      req_body = None, req_cf = None\<rparr>"

definition bare_preflight_headers :: headers where
  "bare_preflight_headers =
     [(''access-control-allow-headers'', ''authorization''),
      (''access-control-allow-methods'', ''POST''),
      (''access-control-allow-origin'', ''https://app.example''),
      (''access-control-expose-headers'',
       ''access-control-allow-headers,content-type,set-cookie,x-content-type-options,'' @
       ''cors-received-headers''),
      (''content-type'', ''text/html''),
      (''cors-received-headers'', sample_stringify (JObject sample_received)),
      (''set-cookie'', ''id=1'')]"

text \<open>A request without a target and without an \<^verbatim>\<open>Origin\<close>, and the response to it.\<close>

definition info_request :: request where
  "info_request =
     \<lparr>req_method = ''GET'', req_search = [], req_origin = ''https://proxy.example'',
      req_headers = [(''CF-Connecting-IP'', ''198.51.100.4'')],
      req_body = None,
      req_cf = Some \<lparr>cf_country = Some ''DE'', cf_colo = Some ''FRA''\<rparr>\<rparr>"

definition info_headers :: headers where
  "info_headers =
     [(''access-control-allow-origin'', ''null''),
      (''Content-Type'', ''text/plain;charset=UTF-8'')]"

definition info_page :: response where
  "info_page =
     \<lparr>status = 200, statusText = [], resp_headers = info_headers,
      resp_body =
        Text (''CLOUDFLARE-CORS-ANYWHERE'' @ newline @ newline @
              ''Source:'' @ newline @ ''https://github.com/Zibri/cloudflare-cors-anywhere'' @
              newline @ newline @
              ''Usage:'' @ newline @ ''https://proxy.example/?uri'' @ newline @ newline @
              ''Limits: 100,000 requests/day'' @ newline @
              ''          1,000 requests/10 minutes'' @ newline @ newline @
              ''IP: 198.51.100.4'' @ newline @
              ''Country: DE'' @ newline @
              ''Datacenter: FRA'' @ newline @ newline)\<rparr>"

text \<open>A request from a blacklisted origin.\<close>

definition denied_request :: request where
  "denied_request =
     \<lparr>req_method = ''GET'', req_search = ''?https://example.com/'',
      req_origin = ''https://proxy.example'',
      req_headers = [(''Origin'', ''https://evil.example'')],
      req_body = None, req_cf = None\<rparr>"

definition evil_lists :: accessLists where
  "evil_lists = \<lparr>whitelistUrls = [], blacklistUrls = [], whitelistOrigins = [],
                  blacklistOrigins = [''evil'']\<rparr>"

subsection \<open>Invalid escapes\<close>

text \<open>
  A string has an invalid escape when some \<^verbatim>\<open>%\<close> in it is not followed by two
  hexadecimal digits.
\<close>

fun invalid_escape :: "string \<Rightarrow> bool" where
  "invalid_escape [] = False"
| "invalid_escape (c # s) =
     ((c = CHR ''%'' \<and>
       (case s of a # b # s' \<Rightarrow> hex_digit a = None \<or> hex_digit b = None | _ \<Rightarrow> True)) \<or>
      invalid_escape s)"

section \<open>Properties\<close>

subsection \<open>Headers and plain objects\<close>

lemma lower_char_idem: "lower_char (lower_char c) = lower_char c"
  by (simp add: lower_char_def)

lemma lower_idem: "lower (lower s) = lower s"
  by (simp add: lower_def lower_char_idem)

lemma headers_values_delete:
  "headers_values (headers_delete h n) m = (if lower m = lower n then [] else headers_values h m)"
  by (induction h) (auto simp: headers_values_def headers_delete_def)

lemma headers_values_set:
  "headers_values (headers_set h n v) m =
     (if lower m = lower n then [v] else headers_values h m)"
proof (induction h)
  case Nil
  then show ?case by (auto simp: headers_values_def)
next
  case (Cons nv h)
  then show ?case
    using headers_values_delete[of h n m]
    by (auto simp: headers_values_def)
qed

lemma headers_get_set:
  "headers_get (headers_set h n v) m =
     (if lower m = lower n then Some v else headers_get h m)"
  by (simp add: headers_get_def headers_values_set)

lemma headers_get_delete:
  "headers_get (headers_delete h n) m = (if lower m = lower n then None else headers_get h m)"
  by (simp add: headers_get_def headers_values_delete)

lemma filter_eq_distinct:
  "distinct xs \<Longrightarrow> filter (\<lambda>y. y = x) xs = (if x \<in> set xs then [x] else [])"
  by (induction xs) auto

lemma headers_names_lower: "n \<in> set (headers_names h) \<Longrightarrow> lower n = n"
  by (auto simp: headers_names_def lower_idem)

lemma headers_names_distinct: "distinct (headers_names h)"
  by (simp add: headers_names_def)

lemma headers_values_Nil_iff:
  "headers_values h m = [] \<longleftrightarrow> lower m \<notin> set (headers_names h)"
  by (auto simp: headers_values_def headers_names_def filter_empty_conv image_iff)

lemma headers_values_lower: "headers_values h (lower m) = headers_values h m"
  by (simp add: headers_values_def lower_idem)

lemma headers_values_entries:
  "headers_values (headers_entries h) m =
     (if lower m \<in> set (headers_names h) then [join '', '' (headers_values h m)] else [])"
proof -
  have "filter (\<lambda>nv. lower (fst nv) = lower m) (headers_entries h) =
        map (\<lambda>n. (n, join '', '' (headers_values h n))) (filter (\<lambda>n. n = lower m) (headers_names h))"
    unfolding headers_entries_def filter_map
    by (rule arg_cong[where f="map _"], rule filter_cong) (auto simp: o_def headers_names_lower)
  then show ?thesis
    by (simp add: headers_values_def[of "headers_entries h"] filter_eq_distinct headers_names_distinct
        headers_values_lower)
qed

lemma headers_get_entries: "headers_get (headers_entries h) m = headers_get h m"
proof (cases "headers_values h m")
  case Nil
  then show ?thesis
    using headers_values_Nil_iff[of h m] by (simp add: headers_get_def headers_values_entries)
next
  case (Cons v vs)
  then have "lower m \<in> set (headers_names h)"
    using headers_values_Nil_iff[of h m] by auto
  then show ?thesis
    using Cons by (simp add: headers_get_def headers_values_entries)
qed

lemma map_of_headers_entries:
  "map_of (headers_entries h) k = (if lower k = k then headers_get h k else None)"
proof (cases "k \<in> set (headers_names h)")
  case True
  then have "headers_values h k \<noteq> []"
    using headers_values_Nil_iff[of h k] headers_names_lower[of k h] by simp
  with True show ?thesis
    by (auto simp: headers_entries_def map_of_map_restrict headers_get_def headers_names_lower
        split: list.splits)
next
  case False
  then have "lower k = k \<Longrightarrow> headers_values h k = []"
    using headers_values_Nil_iff[of h k] by simp
  with False show ?thesis
    by (auto simp: headers_entries_def map_of_map_restrict headers_get_def)
qed

lemma distinct_headers_entries: "distinct (map fst (headers_entries h))"
  by (simp add: headers_entries_def o_def headers_names_distinct)

lemma map_of_rev_distinct: "distinct (map fst xs) \<Longrightarrow> map_of (rev xs) = map_of xs"
  by (subst map_of_inject_set) (simp_all flip: rev_map)

lemma map_of_fold_assign:
  "map_of (fold assign_entry props obj) = map_of obj ++ map_of (rev props)"
  by (induction props arbitrary: obj) (simp_all add: assign_entry_def update_conv')

lemma map_of_copy_header:
  "map_of (copy_header e obj) k =
     (if fst e = k \<and> \<not> excluded_key k then Some (JString (snd e)) else map_of obj k)"
  by (auto simp: copy_header_def update_conv')

lemma map_of_fold_copy:
  "map_of (fold copy_header es obj) k =
     (case map_of (rev es) k of
        Some v \<Rightarrow> if excluded_key k then map_of obj k else Some (JString v)
      | None \<Rightarrow> map_of obj k)"
proof (induction es arbitrary: obj)
  case Nil
  then show ?case by simp
next
  case (Cons e es)
  show ?case
    by (auto simp: Cons.IH map_of_copy_header map_add_def split: option.splits)
qed

lemma map_of_copied:
  "map_of (fold copy_header (headers_entries h) []) k =
     (if lower k = k \<and> \<not> excluded_key k then map_option JString (headers_get h k) else None)"
  by (auto simp: map_of_fold_copy map_of_rev_distinct distinct_headers_entries
      map_of_headers_entries split: option.splits)

lemma map_of_filteredHeaders:
  "map_of (filteredHeaders_of h customHeaders) k =
     (case map_of (rev (Object_entries customHeaders)) k of
        Some v \<Rightarrow> Some v
      | None \<Rightarrow>
          if lower k = k \<and> \<not> excluded_key k then map_option JString (headers_get h k)
          else None)"
proof (cases "customHeaders = JNull")
  case True
  then show ?thesis
    by (simp add: filteredHeaders_of_def map_of_copied)
next
  case False
  then show ?thesis
    by (simp add: filteredHeaders_of_def map_of_fold_assign map_of_copied map_add_def
        split: option.splits)
qed

subsection \<open>Access policy and patterns\<close>

lemma isAccessAllowed_cases:
  "isAccessAllowed rx url origin acl =
     (case listed rx origin (blacklistOrigins acl) of
        Inl e \<Rightarrow> Inl e
      | Inr True \<Rightarrow> Inr False
      | Inr False \<Rightarrow>
     (case listed rx (Some url) (blacklistUrls acl) of
        Inl e \<Rightarrow> Inl e
      | Inr True \<Rightarrow> Inr False
      | Inr False \<Rightarrow>
     (case not_listed rx origin (whitelistOrigins acl) of
        Inl e \<Rightarrow> Inl e
      | Inr True \<Rightarrow> Inr False
      | Inr False \<Rightarrow>
     (case not_listed rx (Some url) (whitelistUrls acl) of
        Inl e \<Rightarrow> Inl e
      | Inr True \<Rightarrow> Inr False
      | Inr False \<Rightarrow> Inr True))))"
  by (simp add: isAccessAllowed_def)

lemma listed_True:
  "listed rx uri listing = Inr True \<longleftrightarrow> listing \<noteq> [] \<and> isMatched rx uri listing = Inr True"
  by (simp add: listed_def)

lemma listed_False:
  "listed rx uri listing = Inr False \<longleftrightarrow> listing = [] \<or> isMatched rx uri listing = Inr False"
  by (auto simp: listed_def)

lemma not_listed_True:
  "not_listed rx uri listing = Inr True \<longleftrightarrow> listing \<noteq> [] \<and> isMatched rx uri listing = Inr False"
  by (cases "isMatched rx uri listing") (auto simp: not_listed_def)

lemma not_listed_False:
  "not_listed rx uri listing = Inr False \<longleftrightarrow> listing = [] \<or> isMatched rx uri listing = Inr True"
  by (cases "isMatched rx uri listing") (auto simp: not_listed_def)

text \<open>
  Claim C1. \<^verbatim>\<open>isAccessAllowed\<close> runs the four checks in the order origin blacklist, URL
  blacklist, origin whitelist, URL whitelist, and denies at the first one that fails: a
  check that fails decides, whatever the later lists hold (even a pattern the engine would
  reject). The result is allow exactly when all four checks pass, and an origin that
  matches both a non-empty origin blacklist and a non-empty origin whitelist is denied.
\<close>

theorem isAccessAllowed_order:
  fixes rx :: regexp_test and url :: string and origin :: "string option" and acl :: accessLists
  shows
  "(blacklistOrigins acl \<noteq> [] \<and> isMatched rx origin (blacklistOrigins acl) = Inr True
      \<longrightarrow> isAccessAllowed rx url origin acl = Inr False) \<and>
   ((blacklistOrigins acl = [] \<or> isMatched rx origin (blacklistOrigins acl) = Inr False) \<and>
    blacklistUrls acl \<noteq> [] \<and> isMatched rx (Some url) (blacklistUrls acl) = Inr True
      \<longrightarrow> isAccessAllowed rx url origin acl = Inr False) \<and>
   ((blacklistOrigins acl = [] \<or> isMatched rx origin (blacklistOrigins acl) = Inr False) \<and>
    (blacklistUrls acl = [] \<or> isMatched rx (Some url) (blacklistUrls acl) = Inr False) \<and>
    whitelistOrigins acl \<noteq> [] \<and> isMatched rx origin (whitelistOrigins acl) = Inr False
      \<longrightarrow> isAccessAllowed rx url origin acl = Inr False) \<and>
   ((blacklistOrigins acl = [] \<or> isMatched rx origin (blacklistOrigins acl) = Inr False) \<and>
    (blacklistUrls acl = [] \<or> isMatched rx (Some url) (blacklistUrls acl) = Inr False) \<and>
    (whitelistOrigins acl = [] \<or> isMatched rx origin (whitelistOrigins acl) = Inr True) \<and>
    whitelistUrls acl \<noteq> [] \<and> isMatched rx (Some url) (whitelistUrls acl) = Inr False
      \<longrightarrow> isAccessAllowed rx url origin acl = Inr False) \<and>
   (isAccessAllowed rx url origin acl = Inr True \<longleftrightarrow>
      (blacklistOrigins acl = [] \<or> isMatched rx origin (blacklistOrigins acl) = Inr False) \<and>
      (blacklistUrls acl = [] \<or> isMatched rx (Some url) (blacklistUrls acl) = Inr False) \<and>
      (whitelistOrigins acl = [] \<or> isMatched rx origin (whitelistOrigins acl) = Inr True) \<and>
      (whitelistUrls acl = [] \<or> isMatched rx (Some url) (whitelistUrls acl) = Inr True)) \<and>
   (blacklistOrigins acl \<noteq> [] \<and> whitelistOrigins acl \<noteq> [] \<and>
    isMatched rx origin (blacklistOrigins acl) = Inr True \<and>
    isMatched rx origin (whitelistOrigins acl) = Inr True
      \<longrightarrow> isAccessAllowed rx url origin acl = Inr False)"
proof -
  have 1: "isAccessAllowed rx url origin acl = Inr False"
    if "blacklistOrigins acl \<noteq> []" "isMatched rx origin (blacklistOrigins acl) = Inr True"
    using that by (simp add: isAccessAllowed_cases listed_def)
  have 2: "isAccessAllowed rx url origin acl = Inr False"
    if "listed rx origin (blacklistOrigins acl) = Inr False"
       "listed rx (Some url) (blacklistUrls acl) = Inr True"
    using that by (simp add: isAccessAllowed_cases)
  have 3: "isAccessAllowed rx url origin acl = Inr False"
    if "listed rx origin (blacklistOrigins acl) = Inr False"
       "listed rx (Some url) (blacklistUrls acl) = Inr False"
       "not_listed rx origin (whitelistOrigins acl) = Inr True"
    using that by (simp add: isAccessAllowed_cases)
  have 4: "isAccessAllowed rx url origin acl = Inr False"
    if "listed rx origin (blacklistOrigins acl) = Inr False"
       "listed rx (Some url) (blacklistUrls acl) = Inr False"
       "not_listed rx origin (whitelistOrigins acl) = Inr False"
       "not_listed rx (Some url) (whitelistUrls acl) = Inr True"
    using that by (simp add: isAccessAllowed_cases)
  have 5: "isAccessAllowed rx url origin acl = Inr True \<longleftrightarrow>
      listed rx origin (blacklistOrigins acl) = Inr False \<and>
      listed rx (Some url) (blacklistUrls acl) = Inr False \<and>
      not_listed rx origin (whitelistOrigins acl) = Inr False \<and>
      not_listed rx (Some url) (whitelistUrls acl) = Inr False"
    by (auto simp: isAccessAllowed_cases split: sum.splits bool.splits)
  show ?thesis
    using 1 2 3 4 5
    unfolding listed_True listed_False not_listed_True not_listed_False
    by blast
qed

theorem isAccessAllowed_order_witness:
  "isMatched literal_test (Some ''https://evil.example'') [''evil''] = Inr True \<and>
   isMatched literal_test (Some ''https://evil.example'') [''evil'', ''app''] = Inr True \<and>
   isAccessAllowed literal_test ''https://example.com/'' (Some ''https://evil.example'')
     \<lparr>whitelistUrls = [], blacklistUrls = [],
      whitelistOrigins = [''evil'', ''app''], blacklistOrigins = [''evil'']\<rparr> = Inr False"
proof -
  have b: "isMatched literal_test (Some ''https://evil.example'') [''evil''] = Inr True"
    by code_simp
  have w: "isMatched literal_test (Some ''https://evil.example'') [''evil'', ''app''] = Inr True"
    by code_simp
  show ?thesis
    using b w
      isAccessAllowed_order[of "\<lparr>whitelistUrls = [], blacklistUrls = [],
        whitelistOrigins = [''evil'', ''app''], blacklistOrigins = [''evil'']\<rparr>"
        literal_test "Some ''https://evil.example''" "''https://example.com/''"]
    by simp
qed

text \<open>
  Claim C2. \<^verbatim>\<open>wildcardToRegex\<close> does not escape every metacharacter but \<^verbatim>\<open>*\<close>: the
  question mark is not in its character class. On the URL pattern
  \<^verbatim>\<open>https://api.example.com/search?q=*\<close> the expression handed to the engine keeps
  \<^verbatim>\<open>h?\<close>, an optional \<^verbatim>\<open>h\<close>, where the pattern has the two characters \<^verbatim>\<open>h\<close> and
  \<^verbatim>\<open>?\<close>.
\<close>

theorem wildcardToRegex_question_mark:
  "wildcardToRegex ''https://api.example.com/search?q=*'' =
     ''https://api'' @ [backslash] @ ''.example'' @ [backslash] @ ''.com/search?q=.*'' \<and>
   pattern_test rx uri ''https://api.example.com/search?q=*'' =
     rx (''^https://api'' @ [backslash] @ ''.example'' @ [backslash] @ ''.com/search?q=.*$'') uri"
  by (simp add: pattern_test_def wildcardToRegex_def escape_char_def star_char_def
      escaped_chars_def backslash_def)

subsection \<open>Percent-decoding\<close>

lemma hex_digit_percent: "hex_digit CHR ''%'' = None"
  by (simp add: hex_digit_def)

lemma hex_octet_Some:
  "hex_octet a b = Some octet \<Longrightarrow> hex_digit a \<noteq> None \<and> hex_digit b \<noteq> None"
  by (auto simp: hex_octet_def split: option.splits)

lemma invalid_escape_skip_octet:
  "hex_octet a b = Some octet \<Longrightarrow> invalid_escape (a # b # s) = invalid_escape s"
  using hex_digit_percent by (auto dest!: hex_octet_Some)

lemma invalid_escape_continuation:
  "continuation_octets j s = Some (octets, rest) \<Longrightarrow> invalid_escape s \<Longrightarrow> invalid_escape rest"
proof (induction j s arbitrary: octets rest rule: continuation_octets.induct)
  case (1 s)
  then show ?case by simp
next
  case (2 j p a b s)
  from "2.prems"(1) obtain octet octets' where
    p: "p = CHR ''%''" and o: "hex_octet a b = Some octet"
    and c: "continuation_octets j s = Some (octets', rest)"
    by (auto split: if_splits option.splits)
  from "2.prems"(2) p o have "invalid_escape s"
    using invalid_escape_skip_octet[OF o, of s] hex_octet_Some[OF o] by auto
  with "2.IH"[OF p o c] show ?case .
qed simp_all

lemma invalid_escape_sequence:
  assumes "escape_sequence s = Some (octets, rest)" and "invalid_escape s"
  shows "invalid_escape rest"
proof -
  from assms(1) obtain a b s' octet where s: "s = a # b # s'" and o: "hex_octet a b = Some octet"
    by (auto simp: escape_sequence_def split: list.splits option.splits)
  from assms(2) have i: "invalid_escape s'"
    using invalid_escape_skip_octet[OF o, of s'] s by simp
  from assms(1) s o have
    "rest = s' \<or> (\<exists>j octets'. continuation_octets j s' = Some (octets', rest))"
    by (auto simp: escape_sequence_def Let_def split: if_splits option.splits)
  with i show ?thesis
    using invalid_escape_continuation by blast
qed

lemma escape_sequence_valid:
  "escape_sequence s = Some (octets, rest) \<Longrightarrow>
     \<not> (case s of a # b # s' \<Rightarrow> hex_digit a = None \<or> hex_digit b = None | _ \<Rightarrow> True)"
  by (auto simp: escape_sequence_def dest!: hex_octet_Some split: list.splits option.splits)

lemma decodeURIComponent_invalid:
  "invalid_escape s \<Longrightarrow> decodeURIComponent s = Inl URIError"
proof (induction s rule: decodeURIComponent.induct)
  case 1
  then show ?case by simp
next
  case (2 c s)
  show ?case
  proof (cases "c = CHR ''%''")
    case False
    with "2.prems" have "invalid_escape s" by simp
    with "2.IH"(1)[OF False] False show ?thesis by simp
  next
    case True
    show ?thesis
    proof (cases "escape_sequence s")
      case None
      with True show ?thesis by simp
    next
      case (Some a)
      obtain octets rest where a: "a = (octets, rest)" by (cases a)
      from Some a "2.prems" True have "invalid_escape s"
        using escape_sequence_valid[of s octets rest] by auto
      then have "invalid_escape rest"
        using invalid_escape_sequence Some a by blast
      then have "decodeURIComponent rest = Inl URIError"
        using "2.IH"(2) True Some a by simp
      with True Some a show ?thesis by simp
    qed
  qed
qed

lemma decodeURIComponent_error: "decodeURIComponent s = Inl e \<Longrightarrow> e = URIError"
proof (induction s rule: decodeURIComponent.induct)
  case 1
  then show ?case by simp
next
  case (2 c s)
  then show ?case
    by (cases "decodeURIComponent s")
      (auto split: if_splits option.splits sum.splits simp: map_sum_def)
qed

lemma targetUrl_of_error: "targetUrl_of req = Inl e \<Longrightarrow> e = URIError"
  by (auto simp: targetUrl_of_def split: sum.splits dest: decodeURIComponent_error)

text \<open>
  Claim C9. When the query string after the \<^verbatim>\<open>?\<close> has an invalid escape, or has one
  after the first decoding, the handler ends with a \<^verbatim>\<open>URIError\<close> and returns no
  response, whatever the access lists, the headers and the runtime are: the decoding
  comes before the access policy and nothing catches its exception. The query \<^verbatim>\<open>?%\<close>
  is such a string.
\<close>

theorem invalid_escape_throws:
  assumes "invalid_escape (drop 1 (req_search req)) \<or>
           (\<exists>once. decodeURIComponent (drop 1 (req_search req)) = Inr once \<and> invalid_escape once)"
  shows "fetch_handler rt acl req = Inl URIError"
proof -
  from assms have "targetUrl_of req = Inl URIError"
    by (auto simp: targetUrl_of_def decodeURIComponent_invalid)
  then show ?thesis
    by (simp add: fetch_handler_def)
qed

theorem invalid_escape_throws_witness:
  "invalid_escape (drop 1 ''?%'') \<and>
   fetch_handler sample_runtime
     \<lparr>whitelistUrls = [], blacklistUrls = [], whitelistOrigins = [], blacklistOrigins = []\<rparr>
     \<lparr>req_method = ''GET'', req_search = ''?%'', req_origin = ''https://proxy.example'',
      req_headers = [], req_body = None, req_cf = None\<rparr> = Inl URIError"
proof -
  have i: "invalid_escape (drop 1 ''?%'')"
    by simp
  show ?thesis
    using i invalid_escape_throws[of "\<lparr>req_method = ''GET'', req_search = ''?%'',
      req_origin = ''https://proxy.example'', req_headers = [], req_body = None,
      req_cf = None\<rparr>" sample_runtime]
    by simp
qed

lemma headers_get_single:
  "headers_get [(n, v)] m = (if lower n = lower m then Some v else None)"
  by (simp add: headers_get_def headers_values_def)

lemma lower_content_type: "lower ''Content-Type'' = ''content-type''"
  by (simp add: lower_def lower_char_def)

text \<open>
  Claim C10. A request the access policy denies gets the 403 response, whose header list
  is the single header \<^verbatim>\<open>Content-Type: text/html\<close>: it has no
  \<^verbatim>\<open>Access-Control-Allow-Origin\<close>, and no header of any other name.
\<close>

theorem forbidden_without_cors:
  assumes "targetUrl_of req = Inr targetUrl"
    and "isAccessAllowed (RegExp_test rt) targetUrl (headers_get (req_headers req) ''Origin'') acl
           = Inr False"
  shows "\<exists>resp. fetch_handler rt acl req = Inr resp \<and>
           status resp = 403 \<and> statusText resp = ''Forbidden'' \<and>
           resp_headers resp = [(''Content-Type'', ''text/html'')] \<and>
           headers_get (resp_headers resp) ''Access-Control-Allow-Origin'' = None \<and>
           (\<forall>name. headers_get (resp_headers resp) name \<noteq> None
                     \<longrightarrow> lower name = ''content-type'')"
proof -
  have "fetch_handler rt acl req = forbidden_response"
    using assms by (simp add: fetch_handler_def)
  moreover have "lower ''Access-Control-Allow-Origin'' \<noteq> ''content-type''"
    by (simp add: lower_def lower_char_def)
  ultimately show ?thesis
    by (auto simp: forbidden_response_def Response_new_def headers_get_single lower_content_type)
qed

subsection \<open>The handler\<close>

lemma fetch_handler_proxied:
  assumes "targetUrl_of req = Inr targetUrl"
    and "isAccessAllowed (RegExp_test rt) targetUrl (headers_get (req_headers req) ''Origin'') acl
           = Inr True"
    and "prefix ''?'' (req_search req)"
  shows "fetch_handler rt acl req =
           (case fetch_upstream rt targetUrl (newRequest_of rt req) of
              Inl e \<Rightarrow> Inl e
            | Inr up \<Rightarrow> proxied_response rt req up)"
  using assms by (simp add: fetch_handler_def)

lemma fetch_handler_info:
  assumes "targetUrl_of req = Inr targetUrl"
    and "isAccessAllowed (RegExp_test rt) targetUrl (headers_get (req_headers req) ''Origin'') acl
           = Inr True"
    and "\<not> prefix ''?'' (req_search req)"
  shows "fetch_handler rt acl req = info_response rt req (customHeaders_of rt req)"
  using assms by (simp add: fetch_handler_def)

lemma lower_names:
  "lower ''Access-Control-Allow-Origin'' = ''access-control-allow-origin''"
  "lower ''Access-Control-Allow-Methods'' = ''access-control-allow-methods''"
  "lower ''Access-Control-Allow-Headers'' = ''access-control-allow-headers''"
  "lower ''Access-Control-Expose-Headers'' = ''access-control-expose-headers''"
  "lower ''X-Content-Type-Options'' = ''x-content-type-options''"
  "lower ''cors-received-headers'' = ''cors-received-headers''"
  "lower ''Content-Type'' = ''content-type''"
  by (simp_all add: lower_def lower_char_def)

lemma headers_get_Headers_new: "headers_get (Headers_new h) m = headers_get h m"
  by (simp add: Headers_new_def headers_get_entries)

lemma setupCORSHeaders_origin:
  "headers_get (setupCORSHeaders req h) ''Access-Control-Allow-Origin'' =
     Some (String_of (headers_get (req_headers req) ''Origin''))"
  by (simp add: setupCORSHeaders_def Let_def headers_get_set headers_get_delete lower_names
      split: option.splits)

lemma setupCORSHeaders_preflight:
  assumes "req_method req = ''OPTIONS''"
  shows "headers_get (setupCORSHeaders req h) ''Access-Control-Allow-Methods'' =
           Some (String_of (headers_get (req_headers req) ''access-control-request-method''))"
    and "headers_get (req_headers req) ''access-control-request-headers'' = Some v \<Longrightarrow> v \<noteq> [] \<Longrightarrow>
         headers_get (setupCORSHeaders req h) ''Access-Control-Allow-Headers'' = Some v"
    and "headers_get (setupCORSHeaders req h) ''X-Content-Type-Options'' = None"
  using assms
  by (simp_all add: setupCORSHeaders_def Let_def headers_get_set headers_get_delete lower_names
      split: option.splits)

lemma proxied_response_headers:
  assumes "proxied_response rt req up = Inr resp"
  shows "resp_headers resp =
           Headers_new
             (headers_set
               (headers_set (setupCORSHeaders req (Headers_new (up_headers up)))
                  ''Access-Control-Expose-Headers'' (join '','' (exposedHeaders_of up)))
               ''cors-received-headers'' (JSON_stringify rt (JObject (allResponseHeaders_of up))))"
  using assms
  by (auto simp: proxied_response_def Let_def Response_new_def split: if_splits)

lemma proxied_response_get:
  assumes "proxied_response rt req up = Inr resp"
  shows "headers_get (resp_headers resp) m =
           (if lower m = ''cors-received-headers''
            then Some (JSON_stringify rt (JObject (allResponseHeaders_of up)))
            else if lower m = ''access-control-expose-headers''
            then Some (join '','' (exposedHeaders_of up))
            else headers_get (setupCORSHeaders req (Headers_new (up_headers up))) m)"
  unfolding proxied_response_headers[OF assms]
  by (simp add: headers_get_Headers_new headers_get_set lower_names)

lemma proxied_response_preflight:
  assumes "req_method req = ''OPTIONS''"
  shows "\<exists>resp. proxied_response rt req up = Inr resp \<and> status resp = 200 \<and>
           statusText resp = ''OK'' \<and> resp_body resp = NoBody"
  using assms by (simp add: proxied_response_def Let_def Response_new_def)







lemma digit_value_digit: "n < 10 \<Longrightarrow> digit_value (''0123456789'' ! n) = n"
proof -
  assume "n < 10"
  then consider "n = 0" | "n = 1" | "n = 2" | "n = 3" | "n = 4" | "n = 5" | "n = 6" | "n = 7"
    | "n = 8" | "n = 9"
    by atomize_elim arith
  then show ?thesis
    by cases (simp_all add: digit_value_def hex_digit_def)
qed

lemma decimal_value_string_of_nat: "decimal_value (string_of_nat n) = n"
proof (induction n rule: string_of_nat.induct)
  case (1 n)
  show ?case
  proof (cases "n < 10")
    case True
    then show ?thesis
      by (subst string_of_nat.simps) (simp add: decimal_value_def digit_value_digit)
  next
    case False
    with 1 have "decimal_value (string_of_nat (n div 10)) = n div 10"
      by simp
    with False show ?thesis
      by (subst string_of_nat.simps) (simp add: decimal_value_def digit_value_digit)
  qed
qed

lemma inj_string_of_nat: "inj string_of_nat"
  by (rule inj_on_inverseI[where g = decimal_value]) (rule decimal_value_string_of_nat)

lemma distinct_indices: "distinct (map string_of_nat [0..<n])"
  by (simp add: distinct_map inj_on_subset[OF inj_string_of_nat subset_UNIV])

lemma map_of_string_entries:
  assumes "i < length text"
  shows "map_of (rev (Object_entries (JString text))) (string_of_nat i) = Some (JString [text ! i])"
proof -
  let ?ks = "map string_of_nat [0..<length text]"
  let ?vs = "map (\<lambda>c. JString [c]) text"
  have "map_of (rev (zip ?ks ?vs)) = map_of (zip ?ks ?vs)"
    by (rule map_of_rev_distinct) (simp add: distinct_indices)
  moreover have "map_of (zip ?ks ?vs) (?ks ! i) = Some (?vs ! i)"
    using assms by (intro map_of_zip_nth) (simp_all add: distinct_indices)
  ultimately show ?thesis
    using assms by simp
qed

text \<open>
  Claim C4. When \<^verbatim>\<open>JSON.parse\<close> throws on the \<^verbatim>\<open>x-cors-headers\<close> value, the empty
  \<^verbatim>\<open>catch\<close> swallows the exception and \<^verbatim>\<open>customHeaders\<close> keeps the header's string,
  which is not \<^verbatim>\<open>null\<close>: every character of the string is merged into the outbound
  headers, under its index as the name. The request is not processed as one without
  custom headers.
\<close>

theorem malformed_custom_headers_merged:
  assumes "headers_get (req_headers req) ''x-cors-headers'' = Some text"
    and "JSON_parse rt text = Inl e"
    and "i < length text"
  shows "customHeaders_of rt req = JString text \<and>
         map_of (out_headers (newRequest_of rt req)) (string_of_nat i) = Some (JString [text ! i])"
proof -
  from assms(1,2) have c: "customHeaders_of rt req = JString text"
    by (simp add: customHeaders_of_def)
  with map_of_string_entries[OF assms(3)] show ?thesis
    by (simp add: newRequest_of_def map_of_filteredHeaders del: Object_entries.simps)
qed

theorem malformed_custom_headers_merged_witness:
  "headers_get (req_headers malformed_request) ''x-cors-headers'' = Some ''{oops'' \<and>
   JSON_parse sample_runtime ''{oops'' = Inl SyntaxError \<and>
   customHeaders_of sample_runtime malformed_request = JString ''{oops'' \<and>
   map_of (out_headers (newRequest_of sample_runtime malformed_request)) ''0'' =
     Some (JString ''{'') \<and>
   map_of (out_headers (newRequest_of sample_runtime malformed_request)) ''4'' =
     Some (JString ''s'')"
proof -
  have g: "headers_get (req_headers malformed_request) ''x-cors-headers'' = Some ''{oops''"
    by code_simp
  have p: "JSON_parse sample_runtime ''{oops'' = Inl SyntaxError"
    by code_simp
  have n: "string_of_nat 0 = ''0''" "string_of_nat 4 = ''4''"
    by simp_all
  have l: "0 < length ''{oops''" "4 < length ''{oops''"
    by simp_all
  show ?thesis
    using g p malformed_custom_headers_merged[OF g p l(1)]
      malformed_custom_headers_merged[OF g p l(2)]
    by (simp add: n)
qed





lemma headers_get_append:
  "headers_get (h @ h') m =
     (case headers_get h m of
        None \<Rightarrow> headers_get h' m
      | Some v \<Rightarrow> (case headers_get h' m of None \<Rightarrow> Some v | Some v' \<Rightarrow> Some (join '', '' (headers_values h m @ headers_values h' m))))"
  by (auto simp: headers_get_def headers_values_def split: list.splits)

lemma headers_get_Nil: "headers_get [] m = None"
  by (simp add: headers_get_def headers_values_def)

lemma setupCORSHeaders_content_type_keep:
  "headers_get (setupCORSHeaders req h) ''Content-Type'' = headers_get h ''Content-Type''"
  by (simp add: setupCORSHeaders_def Let_def headers_get_set headers_get_delete lower_names
      split: option.splits)

lemma setupCORSHeaders_content_type:
  "headers_get (setupCORSHeaders req []) ''Content-Type'' = None"
  by (simp only: setupCORSHeaders_content_type_keep headers_get_Nil)

text \<open>
  Claim C6, as amended. An allowed \<^verbatim>\<open>OPTIONS\<close> request with a target, once the upstream
  has answered, gets a response with status 200 and text \<^verbatim>\<open>OK\<close>, whatever the upstream
  status, and no body; \<^verbatim>\<open>Access-Control-Allow-Methods\<close> is the request's
  \<^verbatim>\<open>access-control-request-method\<close> (as a string), \<^verbatim>\<open>Access-Control-Allow-Headers\<close> is
  the request's \<^verbatim>\<open>access-control-request-headers\<close> when that value is not empty, and
  there is no \<^verbatim>\<open>X-Content-Type-Options\<close>.
\<close>

theorem preflight_response:
  assumes t: "targetUrl_of req = Inr targetUrl"
    and a: "isAccessAllowed (RegExp_test rt) targetUrl (headers_get (req_headers req) ''Origin'') acl
              = Inr True"
    and p: "prefix ''?'' (req_search req)"
    and m: "req_method req = ''OPTIONS''"
    and u: "fetch_upstream rt targetUrl (newRequest_of rt req) = Inr up"
  shows "\<exists>resp. fetch_handler rt acl req = Inr resp \<and>
           status resp = 200 \<and> statusText resp = ''OK'' \<and> resp_body resp = NoBody \<and>
           headers_get (resp_headers resp) ''Access-Control-Allow-Methods'' =
             Some (String_of (headers_get (req_headers req) ''access-control-request-method'')) \<and>
           (\<forall>v. headers_get (req_headers req) ''access-control-request-headers'' = Some v \<and> v \<noteq> []
                 \<longrightarrow> headers_get (resp_headers resp) ''Access-Control-Allow-Headers'' = Some v) \<and>
           headers_get (resp_headers resp) ''X-Content-Type-Options'' = None"
proof -
  from proxied_response_preflight[OF m, of rt up] obtain resp where
    pr: "proxied_response rt req up = Inr resp" and
    s: "status resp = 200" "statusText resp = ''OK''" "resp_body resp = NoBody"
    by blast
  from t a p u pr have f: "fetch_handler rt acl req = Inr resp"
    by (simp add: fetch_handler_proxied)
  have 1: "headers_get (resp_headers resp) ''Access-Control-Allow-Methods'' =
             Some (String_of (headers_get (req_headers req) ''access-control-request-method''))"
    by (simp add: proxied_response_get[OF pr] lower_names setupCORSHeaders_preflight(1)[OF m])
  have 2: "headers_get (resp_headers resp) ''Access-Control-Allow-Headers'' = Some v"
    if "headers_get (req_headers req) ''access-control-request-headers'' = Some v" "v \<noteq> []" for v
    using that
    by (simp add: proxied_response_get[OF pr] lower_names setupCORSHeaders_preflight(2)[OF m])
  have 3: "headers_get (resp_headers resp) ''X-Content-Type-Options'' = None"
    by (simp add: proxied_response_get[OF pr] lower_names setupCORSHeaders_preflight(3)[OF m])
  from f s 1 2 3 show ?thesis
    by blast
qed

lemma preflight_facts:
  "targetUrl_of preflight_request = Inr ''https://example.com/''"
  "isAccessAllowed (RegExp_test sample_runtime) ''https://example.com/''
     (headers_get (req_headers preflight_request) ''Origin'') open_lists = Inr True"
  "prefix ''?'' (req_search preflight_request)"
  "req_method preflight_request = ''OPTIONS''"
  "fetch_upstream sample_runtime ''https://example.com/''
     (newRequest_of sample_runtime preflight_request) = Inr sample_upstream"
  "headers_get (req_headers preflight_request) ''access-control-request-method'' = Some ''POST''"
  "headers_get (req_headers preflight_request) ''access-control-request-headers'' =
     Some ''content-type,x-token''"
  by code_simp+

theorem preflight_response_witness:
  "targetUrl_of preflight_request = Inr ''https://example.com/'' \<and>
   isAccessAllowed (RegExp_test sample_runtime) ''https://example.com/''
     (headers_get (req_headers preflight_request) ''Origin'') open_lists = Inr True \<and>
   prefix ''?'' (req_search preflight_request) \<and>
   req_method preflight_request = ''OPTIONS'' \<and>
   fetch_upstream sample_runtime ''https://example.com/''
     (newRequest_of sample_runtime preflight_request) = Inr sample_upstream \<and>
   up_status sample_upstream = 404 \<and>
   headers_get (req_headers preflight_request) ''access-control-request-headers'' =
     Some ''content-type,x-token'' \<and>
   (\<exists>resp. fetch_handler sample_runtime open_lists preflight_request = Inr resp \<and>
      status resp = 200 \<and> statusText resp = ''OK'' \<and> resp_body resp = NoBody \<and>
      headers_get (resp_headers resp) ''Access-Control-Allow-Methods'' = Some ''POST'' \<and>
      headers_get (resp_headers resp) ''Access-Control-Allow-Headers'' =
        Some ''content-type,x-token'' \<and>
      headers_get (resp_headers resp) ''X-Content-Type-Options'' = None)"
proof -
  have s: "up_status sample_upstream = 404"
    by (simp add: sample_upstream_def)
  have n: "''content-type,x-token'' \<noteq> []"
    by simp
  show ?thesis
    using s n preflight_facts
      preflight_response[OF preflight_facts(1,2,3,4,5)]
    by (auto simp: String_of_def)
qed

text \<open>
  Claim C6 as stated fails on a request whose \<^verbatim>\<open>Access-Control-Request-Headers\<close> is
  present and empty: the test \<^verbatim>\<open>if (requestedHeaders)\<close> is false of the empty string, the
  header is not set, and the response carries the upstream's
  \<^verbatim>\<open>Access-Control-Allow-Headers\<close>, not the request's value.
\<close>

theorem preflight_empty_requested_headers:
  "headers_get (req_headers bare_preflight_request) ''access-control-request-headers'' = Some [] \<and>
   map_sum id resp_headers (fetch_handler sample_runtime open_lists bare_preflight_request) =
     Inr bare_preflight_headers \<and>
   headers_get bare_preflight_headers ''Access-Control-Allow-Headers'' = Some ''authorization''"
  by code_simp

text \<open>
  Claim C7, as amended. The response to an allowed request without an \<^verbatim>\<open>Origin\<close> header
  has the header \<^verbatim>\<open>Access-Control-Allow-Origin\<close> with the value \<^verbatim>\<open>null\<close>, four
  characters: \<^verbatim>\<open>Headers.set\<close> is called with \<^verbatim>\<open>null\<close> and stores its string. The
  informational page has no origin line: its text is the head followed by the tail.
\<close>

theorem absent_origin_reflected_as_null:
  assumes t: "targetUrl_of req = Inr targetUrl"
    and a: "isAccessAllowed (RegExp_test rt) targetUrl (headers_get (req_headers req) ''Origin'') acl
              = Inr True"
    and o: "headers_get (req_headers req) ''Origin'' = None"
    and r: "fetch_handler rt acl req = Inr resp"
  shows "headers_get (resp_headers resp) ''Access-Control-Allow-Origin'' = Some ''null'' \<and>
         (\<not> prefix ''?'' (req_search req) \<longrightarrow>
            resp_body resp =
              Text (info_head req @ info_tail rt req (customHeaders_of rt req)))"
proof (cases "prefix ''?'' (req_search req)")
  case True
  with t a r obtain up where pr: "proxied_response rt req up = Inr resp"
    by (auto simp: fetch_handler_proxied split: sum.splits)
  show ?thesis
    using True o
    by (simp add: proxied_response_get[OF pr] lower_names setupCORSHeaders_origin String_of_def)
next
  case False
  with t a r have i: "info_response rt req (customHeaders_of rt req) = Inr resp"
    by (simp add: fetch_handler_info)
  then have h: "resp_headers resp =
      Headers_new (setupCORSHeaders req []) @ [(''Content-Type'', ''text/plain;charset=UTF-8'')]"
    and b: "resp_body resp = Text (info_text rt req (customHeaders_of rt req))"
    by (auto simp: info_response_def Response_new_def headers_get_Headers_new
        setupCORSHeaders_content_type split: if_splits)
  have "headers_get (resp_headers resp) ''Access-Control-Allow-Origin'' = Some ''null''"
    using o
    by (simp add: h headers_get_append headers_get_Headers_new setupCORSHeaders_origin
        String_of_def headers_get_single lower_names)
  with False b o show ?thesis
    by (simp add: info_text_def)
qed

lemma info_facts:
  "targetUrl_of info_request = Inr []"
  "isAccessAllowed (RegExp_test sample_runtime) []
     (headers_get (req_headers info_request) ''Origin'') open_lists = Inr True"
  "headers_get (req_headers info_request) ''Origin'' = None"
  "\<not> prefix ''?'' (req_search info_request)"
  by code_simp+

lemma info_page_eq: "fetch_handler sample_runtime open_lists info_request = Inr info_page"
  by code_simp

theorem absent_origin_reflected_as_null_witness:
  "targetUrl_of info_request = Inr [] \<and>
   isAccessAllowed (RegExp_test sample_runtime) []
     (headers_get (req_headers info_request) ''Origin'') open_lists = Inr True \<and>
   headers_get (req_headers info_request) ''Origin'' = None \<and>
   fetch_handler sample_runtime open_lists info_request = Inr info_page \<and>
   headers_get (resp_headers info_page) ''Access-Control-Allow-Origin'' = Some ''null'' \<and>
   resp_body info_page =
     Text (info_head info_request @
           info_tail sample_runtime info_request (customHeaders_of sample_runtime info_request))"
  using info_facts info_page_eq
    absent_origin_reflected_as_null[OF info_facts(1,2,3) info_page_eq]
  by simp

text \<open>
  Claim C7 as stated fails on the request without a target and without an \<^verbatim>\<open>Origin\<close>
  header: the \<^verbatim>\<open>Access-Control-Allow-Origin\<close> of the response is neither absent nor
  empty.
\<close>

theorem absent_origin_not_empty:
  "headers_get (req_headers info_request) ''Origin'' = None \<and>
   map_sum id resp_headers (fetch_handler sample_runtime open_lists info_request) =
     Inr info_headers \<and>
   headers_get info_headers ''Access-Control-Allow-Origin'' = Some ''null''"
  by code_simp

lemma denied_facts:
  "targetUrl_of denied_request = Inr ''https://example.com/''"
  "isAccessAllowed (RegExp_test sample_runtime) ''https://example.com/''
     (headers_get (req_headers denied_request) ''Origin'') evil_lists = Inr False"
  by code_simp+

theorem forbidden_without_cors_witness:
  "targetUrl_of denied_request = Inr ''https://example.com/'' \<and>
   isAccessAllowed (RegExp_test sample_runtime) ''https://example.com/''
     (headers_get (req_headers denied_request) ''Origin'') evil_lists = Inr False \<and>
   (\<exists>resp. fetch_handler sample_runtime evil_lists denied_request = Inr resp \<and>
      status resp = 403 \<and>
      resp_headers resp = [(''Content-Type'', ''text/html'')] \<and>
      headers_get (resp_headers resp) ''Access-Control-Allow-Origin'' = None)"
  using denied_facts forbidden_without_cors[OF denied_facts]
  by auto

end
